theory Spec2Isabelle
  imports Main "HOL-Library.Sublist"
begin

section \<open>Shared data model\<close>

text \<open>
  Decoded JSON values: tool input schemas, tool arguments, tool results and the
  provider-shaped tool catalog entries are all ordinary Python objects built from
  dicts, lists, strings, integers, booleans and \<open>None\<close>.  A dict is an association
  list, so that the order of its keys is kept.
\<close>

datatype json =
    JNull
  | JBool bool
  | JInt int
  | JStr string
  | JList "json list"
  | JObj "(string \<times> json) list"

text \<open>
  The exceptions that can leave \<open>process_query\<close>.  \<open>BackendError\<close> and
  \<open>ToolExecutionError\<close> come from the two collaborators (the model API and the tool
  session); the others are Python's own, raised by indexing, \<open>str.join\<close> and \<open>eval\<close>.
\<close>

datatype error =
    BackendError string
  | ToolExecutionError string
  | KeyError string
  | IndexError string
  | TypeError string
  | EvalError string


datatype 'a outcome = Returns 'a | Raises error

text \<open>A tool descriptor as \<open>session.list_tools()\<close> returns it.\<close>

record tool =
  name :: string
  description :: string
  inputSchema :: json

text \<open>
  What happened during one \<open>process_query\<close>, in order: every call to the model backend
  with the request as it was serialised at that moment and what came back, and every
  \<open>session.call_tool\<close> with its arguments and what came back.
\<close>

datatype ('req, 'rep) event =
    Backend_call 'req "error + 'rep"
  | Tool_call string json "error + json"

fun is_backend_call :: "('req, 'rep) event \<Rightarrow> bool" where
  "is_backend_call (Backend_call _ _) = True"
| "is_backend_call (Tool_call _ _ _) = False"

fun is_tool_call :: "('req, 'rep) event \<Rightarrow> bool" where
  "is_tool_call (Backend_call _ _) = False"
| "is_tool_call (Tool_call _ _ _) = True"

definition backend_calls :: "('req, 'rep) event list \<Rightarrow> nat" where
  "backend_calls es = length (filter is_backend_call es)"

definition tool_calls_made :: "('req, 'rep) event list \<Rightarrow> nat" where
  "tool_calls_made es = length (filter is_tool_call es)"

text \<open>\<open>sep.join(xs)\<close> on a list of strings.\<close>

fun join :: "string \<Rightarrow> string list \<Rightarrow> string" where
  "join sep [] = []"
| "join sep [x] = x"
| "join sep (x # y # ys) = x @ sep @ join sep (y # ys)"

definition newline :: string where
  "newline = [CHR 0x0A]"

section \<open>Variant A: \<open>client-bedrock.py\<close>\<close>

text \<open>
  The items of a Bedrock reply's \<open>"content"\<close> list:
  \<open>{"type": "text", "text": t}\<close> and
  \<open>{"type": "tool_use", "id": i, "name": n, "input": a}\<close>.
  These are the two types the loop has a branch for; an item of another type would
  pass through the loop untouched and is not modelled.
\<close>

datatype content =
    Text string
  | Tool_use string string json

text \<open>
  The decoded response body; \<open>None\<close> is a body without a \<open>"content"\<close> key.
  The first reply is read with \<open>response_json.get("content", [])\<close>, the follow-up
  replies with \<open>response_json["content"][0]["text"]\<close>.
\<close>

type_synonym reply_A = "content list option"

definition get_content :: "reply_A \<Rightarrow> content list" where
  "get_content r = (case r of None \<Rightarrow> [] | Some cs \<Rightarrow> cs)"

fun first_text :: "reply_A \<Rightarrow> error + string" where
  "first_text None = Inl (KeyError ''content'')"
| "first_text (Some []) = Inl (IndexError ''list index out of range'')"
| "first_text (Some (Text t # _)) = Inr t"
| "first_text (Some (Tool_use _ _ _ # _)) = Inl (KeyError ''text'')"

text \<open>
  The entries of the list \<open>messages\<close>.  The assistant entry is the dict
  \<open>{"role": "assistant", "content": assistant_message_content}\<close>: it holds the one
  list object \<open>assistant_message_content\<close> itself, not a copy, so what it contains is
  whatever that list contains when the history is read.  \<open>stored_message\<close> is the
  entry as it sits in the Python list, \<open>message_A\<close> is its value when serialised.
\<close>

datatype stored_message =
    Stored_user string
  | Stored_assistant_shared
  | Stored_tool_result string string

datatype message_A =
    User_message string
  | Assistant_message "content list"
  | Tool_result_message string string

record request_A =
  request_messages :: "message_A list"
  max_tokens :: int
  anthropic_version :: string
  request_tools :: "json list"

record state_A =
  messages_A :: "stored_message list"
  assistant_message_content :: "content list"
  final_text_A :: "string list"
  events_A :: "(request_A, reply_A) event list"

fun resolve :: "content list \<Rightarrow> stored_message \<Rightarrow> message_A" where
  "resolve amc (Stored_user q) = User_message q"
| "resolve amc Stored_assistant_shared = Assistant_message amc"
| "resolve amc (Stored_tool_result i c) = Tool_result_message i c"

text \<open>The history as \<open>json.dumps\<close> sees it in state \<open>st\<close>.\<close>

definition history_A :: "state_A \<Rightarrow> message_A list" where
  "history_A st = map (resolve (assistant_message_content st)) (messages_A st)"

text \<open>
  The collaborators of Variant A.  The tool session and the backend are remote and
  stateful, so the \<open>n\<close>-th call (counted from 0) may answer differently from the one
  before; \<open>py_str\<close> is Python's built-in \<open>str\<close> on decoded values.
\<close>

record env_A =
  list_tools_A :: "tool list"
  call_tool_A :: "nat \<Rightarrow> string \<Rightarrow> json \<Rightarrow> error + json"
  invoke_model :: "nat \<Rightarrow> request_A \<Rightarrow> error + reply_A"
  py_str :: "json \<Rightarrow> string"

text \<open>The Tool Catalog Adapter of Variant A (the list comprehension of lines 48-52).\<close>

definition available_tool_A :: "tool \<Rightarrow> json" where
  "available_tool_A t =
     JObj [(''name'', JStr (name t)),
           (''description'', JStr (description t)),
           (''input_schema'', inputSchema t)]"

definition available_tools_A :: "tool list \<Rightarrow> json list" where
  "available_tools_A ts = map available_tool_A ts"

definition request_body :: "json list \<Rightarrow> state_A \<Rightarrow> request_A" where
  "request_body available_tools st =
     \<lparr>request_messages = history_A st,
      max_tokens = 1000,
      anthropic_version = ''bedrock-2023-05-31'',
      request_tools = available_tools\<rparr>"

text \<open>One \<open>self.bedrock.invoke_model(...)\<close> followed by \<open>json.loads\<close>, logged.\<close>

definition invoke_A :: "env_A \<Rightarrow> json list \<Rightarrow> state_A \<Rightarrow> (error + reply_A) \<times> state_A" where
  "invoke_A env available_tools st =
     (let req = request_body available_tools st;
          rep = invoke_model env (backend_calls (events_A st)) req
      in (rep, st\<lparr>events_A := events_A st @ [Backend_call req rep]\<rparr>))"

text \<open>One \<open>await self.session.call_tool(tool_name, tool_args)\<close>, logged.\<close>

definition dispatch_A :: "env_A \<Rightarrow> string \<Rightarrow> json \<Rightarrow> state_A \<Rightarrow> (error + json) \<times> state_A" where
  "dispatch_A env tool_name tool_args st =
     (let res = call_tool_A env (tool_calls_made (events_A st)) tool_name tool_args
      in (res, st\<lparr>events_A := events_A st @ [Tool_call tool_name tool_args res]\<rparr>))"

text \<open>The f-string \<open>f"[Calling tool {tool_name} with args {tool_args}]"\<close>.\<close>

definition calling_tool_text :: "env_A \<Rightarrow> string \<Rightarrow> json \<Rightarrow> string" where
  "calling_tool_text env tool_name tool_args =
     ''[Calling tool '' @ tool_name @ '' with args '' @ py_str env tool_args @ '']''"

text \<open>
  The \<open>for content in response_json.get("content", [])\<close> loop (lines 73-105).  It runs
  over the items of the first reply only: rebinding \<open>response_json\<close> in the body does
  not change the list being iterated.  The result is \<open>Some e\<close> when the body raised \<open>e\<close>.
\<close>

fun for_content :: "env_A \<Rightarrow> json list \<Rightarrow> content list \<Rightarrow> state_A \<Rightarrow> error option \<times> state_A" where
  "for_content env available_tools [] st = (None, st)"
| "for_content env available_tools (Text t # cs) st =
     for_content env available_tools cs
       (st\<lparr>final_text_A := final_text_A st @ [t],
           assistant_message_content := assistant_message_content st @ [Text t]\<rparr>)"
| "for_content env available_tools (Tool_use tid tool_name tool_args # cs) st =
     (case dispatch_A env tool_name tool_args st of
        (Inl e, st1) \<Rightarrow> (Some e, st1)
      | (Inr result, st1) \<Rightarrow>
          (let st2 = st1\<lparr>final_text_A := final_text_A st1 @ [calling_tool_text env tool_name tool_args],
                          assistant_message_content :=
                            assistant_message_content st1 @ [Tool_use tid tool_name tool_args]\<rparr>;
               st3 = st2\<lparr>messages_A := messages_A st2 @
                            [Stored_assistant_shared, Stored_tool_result tid (py_str env result)]\<rparr>
           in case invoke_A env available_tools st3 of
                (Inl e, st4) \<Rightarrow> (Some e, st4)
              | (Inr response_json, st4) \<Rightarrow>
                  (case first_text response_json of
                     Inl e \<Rightarrow> (Some e, st4)
                   | Inr t \<Rightarrow>
                       for_content env available_tools cs
                         (st4\<lparr>final_text_A := final_text_A st4 @ [t]\<rparr>))))"

definition initial_state_A :: "string \<Rightarrow> state_A" where
  "initial_state_A query =
     \<lparr>messages_A = [Stored_user query],
      assistant_message_content = [],
      final_text_A = [],
      events_A = []\<rparr>"

definition process_query_A :: "env_A \<Rightarrow> string \<Rightarrow> string outcome \<times> state_A" where
  "process_query_A env query =
     (let available_tools = available_tools_A (list_tools_A env)
      in case invoke_A env available_tools (initial_state_A query) of
           (Inl e, st1) \<Rightarrow> (Raises e, st1)
         | (Inr response_json, st1) \<Rightarrow>
             (case for_content env available_tools (get_content response_json) st1 of
                (Some e, st2) \<Rightarrow> (Raises e, st2)
              | (None, st2) \<Rightarrow> (Returns (join newline (final_text_A st2)), st2)))"

section \<open>Variant B: \<open>client-openai.py\<close>\<close>

text \<open>
  One entry of \<open>message.tool_calls\<close>: \<open>tool_call.id\<close>, \<open>tool_call.function.name\<close>
  and \<open>tool_call.function.arguments\<close>, the last one still text.
\<close>

datatype tool_call =
  ToolCall (tool_call_id: string) (function_name: string) (function_arguments: string)

text \<open>
  The message object of a chat completion.  \<open>content\<close> may be \<open>None\<close>, and
  \<open>tool_calls\<close> is \<open>None\<close> or a list.
\<close>

record message_B =
  message_content :: "string option"
  tool_calls :: "tool_call list option"

text \<open>\<open>chat_response.choices\<close>, each choice given by its message.\<close>

type_synonym chat_response = "message_B list"

text \<open>
  The entries of \<open>messages\<close>: the user dict, the message objects of the replies, and
  the dicts \<open>{"role": "tool", "tool_call_id": i, "name": n, "content": c}\<close>.
  None of them is shared with a list that is written to later.
\<close>

datatype stored_message_B =
    User_B string
  | Assistant_B message_B
  | Tool_B string string json

record request_B =
  model :: string
  messages :: "stored_message_B list"
  tools :: "json list"
  tool_choice :: string

record state_B =
  messages_B :: "stored_message_B list"
  final_text_B :: "string option list"
  events_B :: "(request_B, chat_response) event list"

text \<open>
  The collaborators of Variant B; \<open>py_eval\<close> is Python's built-in \<open>eval\<close>, applied to
  the argument text of a tool call.
\<close>

record env_B =
  list_tools_B :: "tool list"
  call_tool_B :: "nat \<Rightarrow> string \<Rightarrow> json \<Rightarrow> error + json"
  create :: "nat \<Rightarrow> request_B \<Rightarrow> error + chat_response"
  py_eval :: "string \<Rightarrow> error + json"

text \<open>The Tool Catalog Adapter of Variant B (the list comprehension of lines 54-64).\<close>

definition available_tool_B :: "tool \<Rightarrow> json" where
  "available_tool_B t =
     JObj [(''type'', JStr ''function''),
           (''function'',
              JObj [(''name'', JStr (name t)),
                    (''description'', JStr (description t)),
                    (''parameters'', inputSchema t)])]"

definition available_tools_B :: "tool list \<Rightarrow> json list" where
  "available_tools_B ts = map available_tool_B ts"

text \<open>One \<open>client.chat.completions.create(...)\<close>, logged.\<close>

definition create_B :: "env_B \<Rightarrow> json list \<Rightarrow> state_B \<Rightarrow> (error + chat_response) \<times> state_B" where
  "create_B env available_tools st =
     (let req = \<lparr>model = ''gpt-4'', messages = messages_B st,
                 tools = available_tools, tool_choice = ''auto''\<rparr>;
          rep = create env (backend_calls (events_B st)) req
      in (rep, st\<lparr>events_B := events_B st @ [Backend_call req rep]\<rparr>))"

definition dispatch_B :: "env_B \<Rightarrow> string \<Rightarrow> json \<Rightarrow> state_B \<Rightarrow> (error + json) \<times> state_B" where
  "dispatch_B env tool_name tool_args st =
     (let res = call_tool_B env (tool_calls_made (events_B st)) tool_name tool_args
      in (res, st\<lparr>events_B := events_B st @ [Tool_call tool_name tool_args res]\<rparr>))"

text \<open>The \<open>for tool_call in message.tool_calls\<close> loop (lines 79-89).\<close>

fun for_tool_calls :: "env_B \<Rightarrow> tool_call list \<Rightarrow> state_B \<Rightarrow> error option \<times> state_B" where
  "for_tool_calls env [] st = (None, st)"
| "for_tool_calls env (tc # tcs) st =
     (case py_eval env (function_arguments tc) of
        Inl e \<Rightarrow> (Some e, st)
      | Inr tool_args \<Rightarrow>
          (case dispatch_B env (function_name tc) tool_args st of
             (Inl e, st1) \<Rightarrow> (Some e, st1)
           | (Inr result, st1) \<Rightarrow>
               for_tool_calls env tcs
                 (st1\<lparr>messages_B := messages_B st1 @
                         [Tool_B (tool_call_id tc) (function_name tc) result]\<rparr>)))"

text \<open>Decimal digits of a natural number, for the text of Python's \<open>TypeError\<close>.\<close>

function show_nat :: "nat \<Rightarrow> string" where
  "show_nat n =
     (if n < 10 then [char_of (48 + n)]
      else show_nat (n div 10) @ [char_of (48 + n mod 10)])"
  by pat_completeness auto
termination
  by (relation "measure id") auto

text \<open>
  \<open>sep.join(xs)\<close> on a list whose items may be \<open>None\<close>: the first \<open>None\<close> raises
  \<open>TypeError\<close>.
\<close>

definition join_opt :: "string \<Rightarrow> string option list \<Rightarrow> error + string" where
  "join_opt sep xs =
     (case those xs of
        Some ys \<Rightarrow> Inr (join sep ys)
      | None \<Rightarrow>
          Inl (TypeError (''sequence item '' @ show_nat (length (takeWhile (\<lambda>x. x \<noteq> None) xs))
                 @ '': expected str instance, NoneType found'')))"

text \<open>\<open>if message.tool_calls:\<close> holds for a list that is there and not empty.\<close>

definition requested :: "message_B \<Rightarrow> tool_call list" where
  "requested message = (case tool_calls message of None \<Rightarrow> [] | Some tcs \<Rightarrow> tcs)"

text \<open>
  The \<open>while True\<close> loop (lines 74-97) with the \<open>return\<close> after it.  Nothing bounds
  the number of rounds, so the loop is a partial function: \<open>None\<close> is a run that never
  leaves the loop.
\<close>

partial_function (option) while_loop ::
  "env_B \<Rightarrow> json list \<Rightarrow> chat_response \<Rightarrow> state_B \<Rightarrow> (string outcome \<times> state_B) option" where
  "while_loop env available_tools chat_response st =
     (case chat_response of
        [] \<Rightarrow> Some (Raises (IndexError ''list index out of range''), st)
      | message # _ \<Rightarrow>
          (if requested message \<noteq> [] then
             (case for_tool_calls env (requested message)
                     (st\<lparr>messages_B := messages_B st @ [Assistant_B message]\<rparr>) of
                (Some e, st2) \<Rightarrow> Some (Raises e, st2)
              | (None, st2) \<Rightarrow>
                  (case create_B env available_tools st2 of
                     (Inl e, st3) \<Rightarrow> Some (Raises e, st3)
                   | (Inr chat_response', st3) \<Rightarrow>
                       while_loop env available_tools chat_response' st3))
           else
             (case join_opt newline (final_text_B st @ [message_content message]) of
                Inl e \<Rightarrow>
                  Some (Raises e,
                    st\<lparr>messages_B := messages_B st @ [Assistant_B message],
                       final_text_B := final_text_B st @ [message_content message]\<rparr>)
              | Inr text \<Rightarrow>
                  Some (Returns text,
                    st\<lparr>messages_B := messages_B st @ [Assistant_B message],
                       final_text_B := final_text_B st @ [message_content message]\<rparr>))))"

definition initial_state_B :: "string \<Rightarrow> state_B" where
  "initial_state_B query =
     \<lparr>messages_B = [User_B query], final_text_B = [], events_B = []\<rparr>"

definition process_query_B :: "env_B \<Rightarrow> string \<Rightarrow> (string outcome \<times> state_B) option" where
  "process_query_B env query =
     (let available_tools = available_tools_B (list_tools_B env)
      in case create_B env available_tools (initial_state_B query) of
           (Inl e, st1) \<Rightarrow> Some (Raises e, st1)
         | (Inr chat_response, st1) \<Rightarrow> while_loop env available_tools chat_response st1)"

section \<open>The interactive loop (\<open>chat_loop\<close>, the same in both files)\<close>










section \<open>Observations on a run\<close>

text \<open>The replies the backend gave, in order, and the tool calls that were dispatched.\<close>

fun replies :: "('req, 'rep) event list \<Rightarrow> 'rep list" where
  "replies [] = []"
| "replies (Backend_call _ (Inr r) # es) = r # replies es"
| "replies (_ # es) = replies es"

fun requests :: "('req, 'rep) event list \<Rightarrow> 'req list" where
  "requests [] = []"
| "requests (Backend_call req _ # es) = req # requests es"
| "requests (_ # es) = requests es"

fun dispatches :: "('req, 'rep) event list \<Rightarrow> (string \<times> json) list" where
  "dispatches [] = []"
| "dispatches (Tool_call n a _ # es) = (n, a) # dispatches es"
| "dispatches (_ # es) = dispatches es"

fun is_tool_use :: "content \<Rightarrow> bool" where
  "is_tool_use (Text _) = False"
| "is_tool_use (Tool_use _ _ _) = True"

definition tool_uses :: "content list \<Rightarrow> content list" where
  "tool_uses cs = filter is_tool_use cs"

fun texts :: "content list \<Rightarrow> string list" where
  "texts [] = []"
| "texts (Text t # cs) = t # texts cs"
| "texts (Tool_use _ _ _ # cs) = texts cs"

fun use_requests :: "content list \<Rightarrow> (string \<times> json) list" where
  "use_requests [] = []"
| "use_requests (Text _ # cs) = use_requests cs"
| "use_requests (Tool_use _ n a # cs) = (n, a) # use_requests cs"

text \<open>The first request of a query, which carries the query alone.\<close>

definition first_request_A :: "env_A \<Rightarrow> string \<Rightarrow> request_A" where
  "first_request_A env query =
     request_body (available_tools_A (list_tools_A env)) (initial_state_A query)"

definition first_request_B :: "env_B \<Rightarrow> string \<Rightarrow> request_B" where
  "first_request_B env query =
     \<lparr>model = ''gpt-4'', messages = [User_B query],
      tools = available_tools_B (list_tools_B env), tool_choice = ''auto''\<rparr>"

subsection \<open>Reading a provider schema back\<close>

text \<open>
  The round trip of the tool catalog speaks of a reader that knows the provider's
  schema.  These are the two readers, written from the shapes the specification gives:
  \<open>{name, description, input_schema}\<close> and
  \<open>{type: "function", function: {name, description, parameters}}\<close>.
\<close>

fun lookup :: "string \<Rightarrow> json \<Rightarrow> json option" where
  "lookup k (JObj kvs) = map_of kvs k"
| "lookup k _ = None"

fun keys :: "json \<Rightarrow> string list" where
  "keys (JObj kvs) = map fst kvs"
| "keys _ = []"

definition spec_read_descriptor :: "string \<Rightarrow> json \<Rightarrow> tool option" where
  "spec_read_descriptor schema_key e =
     (case (lookup ''name'' e, lookup ''description'' e, lookup schema_key e) of
        (Some (JStr n), Some (JStr d), Some s) \<Rightarrow>
          Some \<lparr>name = n, description = d, inputSchema = s\<rparr>
      | _ \<Rightarrow> None)"

definition spec_read_A :: "json \<Rightarrow> tool option" where
  "spec_read_A e = spec_read_descriptor ''input_schema'' e"

definition spec_read_B :: "json \<Rightarrow> tool option" where
  "spec_read_B e =
     (case (lookup ''type'' e, lookup ''function'' e) of
        (Some (JStr ty), Some f) \<Rightarrow>
          (if ty = ''function'' then spec_read_descriptor ''parameters'' f else None)
      | _ \<Rightarrow> None)"

subsection \<open>The answer the specification describes\<close>




subsection \<open>Tool messages of Variant B\<close>


definition tool_message :: "tool_call \<Rightarrow> json \<Rightarrow> stored_message_B" where
  "tool_message tc result = Tool_B (tool_call_id tc) (function_name tc) result"



text \<open>The log of a finished query of Variant B; empty when the query never returns.\<close>

definition log_B :: "(string outcome \<times> state_B) option \<Rightarrow> (request_B, chat_response) event list" where
  "log_B r = (case r of None \<Rightarrow> [] | Some (out, st) \<Rightarrow> events_B st)"

section \<open>Scripted collaborators\<close>

text \<open>
  A backend stub that answers its \<open>n\<close>-th call with the \<open>n\<close>-th scripted reply, and a
  stand-in for Python's \<open>str\<close> given by the table of the values it is applied to.
\<close>

definition scripted :: "'rep list \<Rightarrow> nat \<Rightarrow> 'req \<Rightarrow> error + 'rep" where
  "scripted rs n req =
     (if n < length rs then Inr (rs ! n) else Inl (BackendError ''no scripted reply''))"

fun table_str :: "(json \<times> string) list \<Rightarrow> json \<Rightarrow> string" where
  "table_str [] v = ''?''"
| "table_str ((k, s) # kvs) v = (if v = k then s else table_str kvs v)"

definition add_args :: json where
  "add_args = JObj [(''a'', JInt 2), (''b'', JInt 3)]"

definition add_tool :: tool where
  "add_tool =
     \<lparr>name = ''add'', description = ''Add two numbers'',
      inputSchema = JObj [(''type'', JStr ''object'')]\<rparr>"

text \<open>A tool session that knows \<open>add\<close> and answers 5.\<close>

definition add_session :: "nat \<Rightarrow> string \<Rightarrow> json \<Rightarrow> error + json" where
  "add_session n tool_name tool_args =
     (if tool_name = ''add'' then Inr (JInt 5) else Inl (ToolExecutionError ''unknown tool''))"

text \<open>A tool session that knows no tool at all.\<close>

definition failing_session :: "nat \<Rightarrow> string \<Rightarrow> json \<Rightarrow> error + json" where
  "failing_session n tool_name tool_args = Inl (ToolExecutionError ''unknown tool'')"

definition example_str :: "json \<Rightarrow> string" where
  "example_str = table_str [(add_args, ''{'a': 2, 'b': 3}''), (JInt 5, ''5'')]"

definition bedrock_env :: "(nat \<Rightarrow> string \<Rightarrow> json \<Rightarrow> error + json) \<Rightarrow> reply_A list \<Rightarrow> env_A" where
  "bedrock_env session rs =
     \<lparr>list_tools_A = [add_tool], call_tool_A = session,
      invoke_model = scripted rs, py_str = example_str\<rparr>"

definition add_arguments_text :: string where
  \<open>add_arguments_text = ''{"a": 2, "b": 3}''\<close>

definition example_eval :: "string \<Rightarrow> error + json" where
  "example_eval s =
     (if s = add_arguments_text then Inr add_args else Inl (EvalError ''invalid syntax''))"

definition openai_env :: "(nat \<Rightarrow> string \<Rightarrow> json \<Rightarrow> error + json) \<Rightarrow> chat_response list \<Rightarrow> env_B" where
  "openai_env session rs =
     \<lparr>list_tools_B = [add_tool], call_tool_B = session,
      create = scripted rs, py_eval = example_eval\<rparr>"

definition asks :: "string option \<Rightarrow> tool_call list \<Rightarrow> chat_response" where
  "asks text tcs = [\<lparr>message_content = text, tool_calls = Some tcs\<rparr>]"

definition says :: "string \<Rightarrow> chat_response" where
  "says text = [\<lparr>message_content = Some text, tool_calls = None\<rparr>]"

definition use1 :: content where
  "use1 = Tool_use ''tu_1'' ''add'' add_args"

definition use2 :: content where
  "use2 = Tool_use ''tu_2'' ''add'' add_args"

definition call1 :: tool_call where
  "call1 = ToolCall ''call_1'' ''add'' add_arguments_text"

definition call2 :: tool_call where
  "call2 = ToolCall ''call_2'' ''add'' add_arguments_text"

section \<open>Basic facts about the log\<close>

lemma backend_calls_simps [simp]:
  "backend_calls [] = 0"
  "backend_calls (Backend_call req rep # es) = Suc (backend_calls es)"
  "backend_calls (Tool_call n a res # es) = backend_calls es"
  "backend_calls (es @ es') = backend_calls es + backend_calls es'"
  by (simp_all add: backend_calls_def)

lemma tool_calls_made_simps [simp]:
  "tool_calls_made [] = 0"
  "tool_calls_made (Backend_call req rep # es) = tool_calls_made es"
  "tool_calls_made (Tool_call n a res # es) = Suc (tool_calls_made es)"
  "tool_calls_made (es @ es') = tool_calls_made es + tool_calls_made es'"
  by (simp_all add: tool_calls_made_def)

lemma dispatches_append [simp]: "dispatches (es @ es') = dispatches es @ dispatches es'"
  by (induction es rule: dispatches.induct) simp_all

lemma replies_append [simp]: "replies (es @ es') = replies es @ replies es'"
  by (induction es rule: replies.induct) simp_all

lemma requests_append [simp]: "requests (es @ es') = requests es @ requests es'"
  by (induction es rule: requests.induct) simp_all

lemma tool_calls_made_dispatches: "tool_calls_made es = length (dispatches es)"
  by (induction es rule: dispatches.induct) simp_all

lemma tool_uses_simps [simp]:
  "tool_uses [] = []"
  "tool_uses (Text t # cs) = tool_uses cs"
  "tool_uses (Tool_use i n a # cs) = Tool_use i n a # tool_uses cs"
  by (simp_all add: tool_uses_def)

lemma length_use_requests: "length (use_requests cs) = length (tool_uses cs)"
  by (induction cs rule: use_requests.induct) simp_all

section \<open>Variant A: one step of the loop\<close>

lemma invoke_A_result:
  "invoke_A env ts st =
     (invoke_model env (backend_calls (events_A st)) (request_body ts st),
      st\<lparr>events_A := events_A st @
         [Backend_call (request_body ts st)
            (invoke_model env (backend_calls (events_A st)) (request_body ts st))]\<rparr>)"
  by (simp add: invoke_A_def Let_def)

lemma dispatch_A_result:
  "dispatch_A env n a st =
     (call_tool_A env (tool_calls_made (events_A st)) n a,
      st\<lparr>events_A := events_A st @
         [Tool_call n a (call_tool_A env (tool_calls_made (events_A st)) n a)]\<rparr>)"
  by (simp add: dispatch_A_def Let_def)

text \<open>What the body of the loop does with a tool request, state by state.\<close>

lemma for_content_Tool_use:
  "for_content env ts (Tool_use tid n a # cs) st =
     (case call_tool_A env (tool_calls_made (events_A st)) n a of
        Inl e \<Rightarrow> (Some e, st\<lparr>events_A := events_A st @ [Tool_call n a (Inl e)]\<rparr>)
      | Inr result \<Rightarrow>
          (let st3 = st\<lparr>events_A := events_A st @ [Tool_call n a (Inr result)],
                        final_text_A := final_text_A st @ [calling_tool_text env n a],
                        assistant_message_content := assistant_message_content st @ [Tool_use tid n a],
                        messages_A := messages_A st @
                          [Stored_assistant_shared, Stored_tool_result tid (py_str env result)]\<rparr>;
               rep = invoke_model env (backend_calls (events_A st)) (request_body ts st3);
               st4 = st3\<lparr>events_A := events_A st3 @ [Backend_call (request_body ts st3) rep]\<rparr>
           in case rep of
                Inl e \<Rightarrow> (Some e, st4)
              | Inr response_json \<Rightarrow>
                  (case first_text response_json of
                     Inl e \<Rightarrow> (Some e, st4)
                   | Inr t \<Rightarrow> for_content env ts cs (st4\<lparr>final_text_A := final_text_A st4 @ [t]\<rparr>))))"
  by (simp add: dispatch_A_result invoke_A_result Let_def split: sum.splits)

text \<open>
  The loop makes one backend call per tool request it serves, and the tool calls it
  dispatches are, in order, the tool requests of the list it runs over.
\<close>

lemma for_content_calls:
  "for_content env ts cs st = (r, st') \<Longrightarrow>
   \<exists>new. events_A st' = events_A st @ new
     \<and> backend_calls new \<le> length (tool_uses cs)
     \<and> prefix (dispatches new) (use_requests cs)
     \<and> (r = None \<longrightarrow> backend_calls new = length (tool_uses cs) \<and> dispatches new = use_requests cs)"
proof (induction cs arbitrary: st r st')
  case Nil
  then show ?case by simp
next
  case (Cons c cs)
  show ?case
  proof (cases c)
    case (Text t)
    with Cons.prems have
      "for_content env ts cs (st\<lparr>final_text_A := final_text_A st @ [t],
         assistant_message_content := assistant_message_content st @ [Text t]\<rparr>) = (r, st')"
      by simp
    from Cons.IH [OF this] Text show ?thesis by simp
  next
    case (Tool_use tid n a)
    note step = Cons.prems [unfolded Tool_use for_content_Tool_use Let_def]
    show ?thesis
    proof (cases "call_tool_A env (tool_calls_made (events_A st)) n a")
      case (Inl e)
      with step Tool_use show ?thesis by auto
    next
      case (Inr result)
      show ?thesis
        using step Inr Tool_use
        by (auto split: sum.splits dest!: Cons.IH)
    qed
  qed
qed

text \<open>Without a tool request the loop only collects the texts.\<close>

lemma for_content_texts:
  "tool_uses cs = [] \<Longrightarrow>
   for_content env ts cs st =
     (None, st\<lparr>final_text_A := final_text_A st @ texts cs,
               assistant_message_content := assistant_message_content st @ cs\<rparr>)"
proof (induction cs arbitrary: st)
  case Nil
  show ?case by simp
next
  case (Cons c cs)
  then show ?case by (cases c) simp_all
qed


lemma for_content_tool_error:
  "for_content env ts cs st = (r, st') \<Longrightarrow>
   \<exists>new. events_A st' = events_A st @ new
     \<and> (\<forall>n a e. Tool_call n a (Inl e) \<in> set new \<longrightarrow> r = Some e \<and> last new = Tool_call n a (Inl e))"
proof (induction cs arbitrary: st r st')
  case Nil
  then show ?case by simp
next
  case (Cons c cs)
  show ?case
  proof (cases c)
    case (Text t)
    with Cons.prems have
      "for_content env ts cs (st\<lparr>final_text_A := final_text_A st @ [t],
         assistant_message_content := assistant_message_content st @ [Text t]\<rparr>) = (r, st')"
      by simp
    from Cons.IH [OF this] Text show ?thesis by simp
  next
    case (Tool_use tid n a)
    note step = Cons.prems [unfolded Tool_use for_content_Tool_use Let_def]
    show ?thesis
      using step Tool_use
      by (auto split: sum.splits dest!: Cons.IH)
  qed
qed

section \<open>Variant B: one round of the loop\<close>

lemma create_B_result:
  "create_B env ts st =
     (create env (backend_calls (events_B st))
        \<lparr>model = ''gpt-4'', messages = messages_B st, tools = ts, tool_choice = ''auto''\<rparr>,
      st\<lparr>events_B := events_B st @
         [Backend_call \<lparr>model = ''gpt-4'', messages = messages_B st, tools = ts, tool_choice = ''auto''\<rparr>
            (create env (backend_calls (events_B st))
               \<lparr>model = ''gpt-4'', messages = messages_B st, tools = ts, tool_choice = ''auto''\<rparr>)]\<rparr>)"
  by (simp add: create_B_def Let_def)

lemma dispatch_B_result:
  "dispatch_B env n a st =
     (call_tool_B env (tool_calls_made (events_B st)) n a,
      st\<lparr>events_B := events_B st @
         [Tool_call n a (call_tool_B env (tool_calls_made (events_B st)) n a)]\<rparr>)"
  by (simp add: dispatch_B_def Let_def)

lemma for_tool_calls_Cons:
  "for_tool_calls env (tc # tcs) st =
     (case py_eval env (function_arguments tc) of
        Inl e \<Rightarrow> (Some e, st)
      | Inr tool_args \<Rightarrow>
          (case call_tool_B env (tool_calls_made (events_B st)) (function_name tc) tool_args of
             Inl e \<Rightarrow> (Some e, st\<lparr>events_B := events_B st @ [Tool_call (function_name tc) tool_args (Inl e)]\<rparr>)
           | Inr result \<Rightarrow>
               for_tool_calls env tcs
                 (st\<lparr>events_B := events_B st @ [Tool_call (function_name tc) tool_args (Inr result)],
                     messages_B := messages_B st @ [tool_message tc result]\<rparr>)))"
  by (simp add: dispatch_B_result tool_message_def split: sum.splits)



lemma for_tool_calls_error:
  "for_tool_calls env tcs st = (r, st') \<Longrightarrow>
   \<exists>new. events_B st' = events_B st @ new \<and> backend_calls new = 0
     \<and> (\<forall>n a e. Tool_call n a (Inl e) \<in> set new \<longrightarrow> r = Some e \<and> last new = Tool_call n a (Inl e))"
proof (induction tcs arbitrary: st)
  case Nil
  then show ?case by simp
next
  case (Cons tc tcs)
  from Cons.prems [unfolded for_tool_calls_Cons] show ?case
    by (auto split: sum.splits dest!: Cons.IH)
qed

lemma while_loop_final:
  "requested m = [] \<Longrightarrow>
   while_loop env ts (m # rest) st =
     (case join_opt newline (final_text_B st @ [message_content m]) of
        Inl e \<Rightarrow>
          Some (Raises e,
            st\<lparr>messages_B := messages_B st @ [Assistant_B m],
               final_text_B := final_text_B st @ [message_content m]\<rparr>)
      | Inr text \<Rightarrow>
          Some (Returns text,
            st\<lparr>messages_B := messages_B st @ [Assistant_B m],
               final_text_B := final_text_B st @ [message_content m]\<rparr>))"
  by (subst while_loop.simps) simp

lemma while_loop_round:
  "requested m \<noteq> [] \<Longrightarrow>
   while_loop env ts (m # rest) st =
     (case for_tool_calls env (requested m) (st\<lparr>messages_B := messages_B st @ [Assistant_B m]\<rparr>) of
        (Some e, st2) \<Rightarrow> Some (Raises e, st2)
      | (None, st2) \<Rightarrow>
          (case create_B env ts st2 of
             (Inl e, st3) \<Rightarrow> Some (Raises e, st3)
           | (Inr chat_response', st3) \<Rightarrow> while_loop env ts chat_response' st3))"
  by (subst while_loop.simps) simp

lemma while_loop_no_choice:
  "while_loop env ts [] st = Some (Raises (IndexError ''list index out of range''), st)"
  by (subst while_loop.simps) simp


lemma while_loop_tool_error:
  assumes "while_loop env ts cr st = Some y"
  shows "\<exists>new. events_B (snd y) = events_B st @ new
     \<and> (\<forall>n a e. Tool_call n a (Inl e) \<in> set new \<longrightarrow>
           fst y = Raises e \<and> last new = Tool_call n a (Inl e))"
proof (rule while_loop.raw_induct [where P = "\<lambda>env ts cr st y.
     \<exists>new. events_B (snd y) = events_B st @ new
     \<and> (\<forall>n a e. Tool_call n a (Inl e) \<in> set new \<longrightarrow>
           fst y = Raises e \<and> last new = Tool_call n a (Inl e))", OF _ assms], goal_cases)
  case (1 loop env ts cr st y)
  note IH = 1(1) and body = 1(2)
  show ?case
  proof (cases cr)
    case Nil
    with body show ?thesis by auto
  next
    case (Cons m rest)
    show ?thesis
    proof (cases "requested m = []")
      case True
      with body Cons show ?thesis by (auto split: sum.splits)
    next
      case False
      obtain r st2 where ftc:
        "for_tool_calls env (requested m) (st\<lparr>messages_B := messages_B st @ [Assistant_B m]\<rparr>) = (r, st2)"
        by (cases "for_tool_calls env (requested m) (st\<lparr>messages_B := messages_B st @ [Assistant_B m]\<rparr>)")
      from for_tool_calls_error [OF ftc] obtain new1 where new1:
        "events_B st2 = events_B st @ new1"
        "\<forall>n a e. Tool_call n a (Inl e) \<in> set new1 \<longrightarrow> r = Some e \<and> last new1 = Tool_call n a (Inl e)"
        by auto
      show ?thesis
      proof (cases r)
        case (Some e)
        with body Cons False ftc new1 show ?thesis by auto
      next
        case None
        with new1 have no_err: "\<forall>n a e. Tool_call n a (Inl e) \<notin> set new1" by auto
        show ?thesis
        proof (cases "create env (backend_calls (events_B st2))
            \<lparr>model = ''gpt-4'', messages = messages_B st2, tools = ts, tool_choice = ''auto''\<rparr>")
          case (Inl e)
          with body Cons False ftc None new1 no_err show ?thesis
            by (auto simp: create_B_result)
        next
          case (Inr cr')
          with body Cons False ftc None
          have "loop env ts cr' (st2\<lparr>events_B := events_B st2 @
              [Backend_call \<lparr>model = ''gpt-4'', messages = messages_B st2, tools = ts, tool_choice = ''auto''\<rparr>
                 (Inr cr')]\<rparr>) = Some y"
            by (simp add: create_B_result)
          from IH [OF this] new1(1) no_err show ?thesis
            by auto
        qed
      qed
    qed
  qed
qed


section \<open>The tool catalog adapter\<close>

lemma spec_read_A_available: "spec_read_A (available_tool_A t) = Some t"
  by (simp add: spec_read_A_def spec_read_descriptor_def available_tool_A_def)

lemma spec_read_B_available: "spec_read_B (available_tool_B t) = Some t"
  by (simp add: spec_read_B_def spec_read_descriptor_def available_tool_B_def)

text \<open>
  Claim C8.  The adapter maps the descriptors one by one.  For a list of \<open>N\<close>
  descriptors Variant A gives \<open>N\<close> dicts with the keys \<open>name\<close>, \<open>description\<close>,
  \<open>input_schema\<close>, and Variant B gives \<open>N\<close> dicts with the keys \<open>type\<close> and
  \<open>function\<close>, where \<open>type\<close> is \<open>"function"\<close> and \<open>function\<close> is a dict with the keys
  \<open>name\<close>, \<open>description\<close>, \<open>parameters\<close>.  Reading either provider schema back gives
  the \<open>N\<close> descriptors again, in the same order and with the same name, description
  and schema.
\<close>

theorem tool_catalog_round_trip:
  "length (available_tools_A ts) = length ts
   \<and> length (available_tools_B ts) = length ts
   \<and> map keys (available_tools_A ts) = replicate (length ts) [''name'', ''description'', ''input_schema'']
   \<and> map keys (available_tools_B ts) = replicate (length ts) [''type'', ''function'']
   \<and> map (\<lambda>e. map_option keys (lookup ''function'' e)) (available_tools_B ts)
       = replicate (length ts) (Some [''name'', ''description'', ''parameters''])
   \<and> map (lookup ''type'') (available_tools_B ts) = replicate (length ts) (Some (JStr ''function''))
   \<and> map spec_read_A (available_tools_A ts) = map Some ts
   \<and> map spec_read_B (available_tools_B ts) = map Some ts
   \<and> available_tools_A (ts @ us) = available_tools_A ts @ available_tools_A us
   \<and> available_tools_B (ts @ us) = available_tools_B ts @ available_tools_B us"
  by (induction ts)
     (simp_all add: available_tools_A_def available_tools_B_def spec_read_A_available
        spec_read_B_available, simp_all add: available_tool_A_def available_tool_B_def)

section \<open>Whole queries\<close>

lemma process_query_A_unfold:
  "process_query_A env query =
     (case invoke_model env 0 (first_request_A env query) of
        Inl e \<Rightarrow>
          (Raises e,
           (initial_state_A query)\<lparr>events_A := [Backend_call (first_request_A env query) (Inl e)]\<rparr>)
      | Inr reply \<Rightarrow>
          (case for_content env (available_tools_A (list_tools_A env)) (get_content reply)
                  ((initial_state_A query)\<lparr>events_A :=
                      [Backend_call (first_request_A env query) (Inr reply)]\<rparr>) of
             (Some e, st2) \<Rightarrow> (Raises e, st2)
           | (None, st2) \<Rightarrow> (Returns (join newline (final_text_A st2)), st2)))"
  by (simp add: process_query_A_def invoke_A_result first_request_A_def initial_state_A_def Let_def
        split: sum.splits)

lemma process_query_B_unfold:
  "process_query_B env query =
     (case create env 0 (first_request_B env query) of
        Inl e \<Rightarrow>
          Some (Raises e,
            (initial_state_B query)\<lparr>events_B := [Backend_call (first_request_B env query) (Inl e)]\<rparr>)
      | Inr chat_response \<Rightarrow>
          while_loop env (available_tools_B (list_tools_B env)) chat_response
            ((initial_state_B query)\<lparr>events_B :=
                [Backend_call (first_request_B env query) (Inr chat_response)]\<rparr>))"
  by (simp add: process_query_B_def create_B_result first_request_B_def initial_state_B_def Let_def
        split: sum.splits)

text \<open>Rules that run Variant B on the scripted collaborators.\<close>

lemmas run_B_simps =
  process_query_B_unfold while_loop_round while_loop_final while_loop_no_choice
  for_tool_calls_Cons dispatch_B_result create_B_result first_request_B_def initial_state_B_def
  openai_env_def scripted_def asks_def says_def requested_def call1_def call2_def
  example_eval_def add_session_def failing_session_def join_opt_def tool_message_def
  available_tools_B_def available_tool_B_def add_tool_def add_arguments_text_def add_args_def

section \<open>The number of backend calls of Variant A\<close>

text \<open>
  Claim C9, as stated, fails: it promises exactly \<open>1 + k\<close> backend invocations for
  every sequence of replies.  With two tool requests in the first reply and a follow-up
  reply whose first item is itself a tool request, reading
  \<open>response_json["content"][0]["text"]\<close> raises \<open>KeyError\<close> after the second
  invocation, so there are 2 invocations and not 3.
\<close>

theorem bedrock_backend_invocations_counterexample:
  "backend_calls (events_A (snd (process_query_A
      (bedrock_env add_session [Some [use1, use2], Some [use2], Some [Text ''5'']]) ''add twice'')))
   \<noteq> 1 + length (tool_uses (get_content (Some [use1, use2])))"
  by code_simp

text \<open>
  Claim C9, amended.  In Variant A \<open>process_query\<close> is a total function, so it ends
  whatever the backend answers.  When the first backend call answers with a reply that
  has \<open>k\<close> tool requests, it makes at most \<open>1 + k\<close> backend calls, and the tool calls
  it dispatches are, in order, an initial part of the tool requests of that first
  reply; when it returns a string, it has made exactly \<open>1 + k\<close> backend calls and
  dispatched exactly the tool requests of the first reply.  Tool requests in later
  replies are never dispatched.
\<close>

theorem bedrock_backend_invocations:
  assumes "invoke_model env 0 (first_request_A env query) = Inr reply"
  shows "backend_calls (events_A (snd (process_query_A env query)))
           \<le> 1 + length (tool_uses (get_content reply))
       \<and> prefix (dispatches (events_A (snd (process_query_A env query))))
           (use_requests (get_content reply))
       \<and> (\<forall>answer. fst (process_query_A env query) = Returns answer \<longrightarrow>
            backend_calls (events_A (snd (process_query_A env query)))
              = 1 + length (tool_uses (get_content reply))
            \<and> dispatches (events_A (snd (process_query_A env query)))
              = use_requests (get_content reply))"
proof -
  let ?st1 = "(initial_state_A query)\<lparr>events_A :=
      [Backend_call (first_request_A env query) (Inr reply)]\<rparr>"
  obtain r st2 where run:
    "for_content env (available_tools_A (list_tools_A env)) (get_content reply) ?st1 = (r, st2)"
    by (cases "for_content env (available_tools_A (list_tools_A env)) (get_content reply) ?st1")
  from for_content_calls [OF run] obtain new where new:
    "events_A st2 = [Backend_call (first_request_A env query) (Inr reply)] @ new"
    "backend_calls new \<le> length (tool_uses (get_content reply))"
    "prefix (dispatches new) (use_requests (get_content reply))"
    "r = None \<longrightarrow> backend_calls new = length (tool_uses (get_content reply))
       \<and> dispatches new = use_requests (get_content reply)"
    by auto
  show ?thesis
  proof (cases r)
    case None
    with assms run new show ?thesis by (simp add: process_query_A_unfold)
  next
    case (Some e)
    with assms run new show ?thesis by (simp add: process_query_A_unfold)
  qed
qed

theorem bedrock_backend_invocations_witness:
  "invoke_model (bedrock_env add_session [Some [use1, use2], Some [Text ''5''], Some [Text ''5'']]) 0
      (first_request_A (bedrock_env add_session [Some [use1, use2], Some [Text ''5''], Some [Text ''5'']]) ''add twice'')
     = Inr (Some [use1, use2])
   \<and> fst (process_query_A (bedrock_env add_session [Some [use1, use2], Some [Text ''5''], Some [Text ''5'']]) ''add twice'')
     = Returns (join newline [''[Calling tool add with args {'a': 2, 'b': 3}]'', ''5'',
                              ''[Calling tool add with args {'a': 2, 'b': 3}]'', ''5''])
   \<and> backend_calls (events_A (snd (process_query_A
        (bedrock_env add_session [Some [use1, use2], Some [Text ''5''], Some [Text ''5'']]) ''add twice''))) = 3
   \<and> dispatches (events_A (snd (process_query_A
        (bedrock_env add_session [Some [use1, use2], Some [Text ''5''], Some [Text ''5'']]) ''add twice'')))
     = [(''add'', add_args), (''add'', add_args)]"
proof -
  let ?env = "bedrock_env add_session [Some [use1, use2], Some [Text ''5''], Some [Text ''5'']]"
  have first: "invoke_model ?env 0 (first_request_A ?env ''add twice'') = Inr (Some [use1, use2])"
    by (simp add: bedrock_env_def scripted_def)
  have ret: "fst (process_query_A ?env ''add twice'')
     = Returns (join newline [''[Calling tool add with args {'a': 2, 'b': 3}]'', ''5'',
                              ''[Calling tool add with args {'a': 2, 'b': 3}]'', ''5''])"
    by code_simp
  from bedrock_backend_invocations [OF first] ret first show ?thesis
    by (simp add: get_content_def use1_def use2_def)
qed

section \<open>The returned string\<close>




section \<open>When the loop ends\<close>

text \<open>
  Claim C4, as stated, fails for Variant A: its loop runs over the items of the first
  reply and does not look at follow-up replies to decide whether to stop.  Here the
  first reply has two tool requests; the second reply has none, and still a second tool
  call and a third backend call follow.
\<close>

theorem stops_without_tool_requests_counterexample:
  "map (\<lambda>r. length (tool_uses (get_content r))) (replies (events_A (snd (process_query_A
      (bedrock_env add_session [Some [use1, use2], Some [Text ''5''], Some [Text ''5'']]) ''add twice''))))
   = [2, 0, 0]"
  by code_simp

text \<open>
  Claim C4, amended.  In Variant B the loop ends, with no further backend or tool call,
  in the round whose reply has no tool calls.  In both variants, when the first reply
  has no tool request, \<open>process_query\<close> makes exactly one backend call and no tool
  call and returns the answer: in Variant B the content of that reply, in Variant A
  the newline-join of its text items.
\<close>

theorem stops_without_tool_requests:
  "(requested m = [] \<longrightarrow>
      (\<exists>out st'. while_loop env_b ts (m # rest) st = Some (out, st')
         \<and> events_B st' = events_B st))
   \<and> (create env_b 0 (first_request_B env_b query_b) = Inr (m # rest) \<longrightarrow>
        requested m = [] \<longrightarrow> message_content m = Some answer_b \<longrightarrow>
        (\<exists>st_b. process_query_B env_b query_b = Some (Returns answer_b, st_b)
           \<and> backend_calls (events_B st_b) = 1 \<and> dispatches (events_B st_b) = []))
   \<and> (invoke_model env_a 0 (first_request_A env_a query_a) = Inr reply \<longrightarrow>
        tool_uses (get_content reply) = [] \<longrightarrow>
        fst (process_query_A env_a query_a) = Returns (join newline (texts (get_content reply)))
        \<and> backend_calls (events_A (snd (process_query_A env_a query_a))) = 1
        \<and> dispatches (events_A (snd (process_query_A env_a query_a))) = [])"
proof -
  have round: "\<exists>out st'. while_loop env_b ts (m # rest) st = Some (out, st')
         \<and> events_B st' = events_B st" if "requested m = []"
    using that
    by (cases "join_opt newline (final_text_B st @ [message_content m])")
       (simp_all add: while_loop_final)
  have first_b: "\<exists>st_b. process_query_B env_b query_b = Some (Returns answer_b, st_b)
           \<and> backend_calls (events_B st_b) = 1 \<and> dispatches (events_B st_b) = []"
    if "create env_b 0 (first_request_B env_b query_b) = Inr (m # rest)"
      "requested m = []" "message_content m = Some answer_b"
    using that
    by (simp add: process_query_B_unfold while_loop_final initial_state_B_def join_opt_def)
  have first_a: "fst (process_query_A env_a query_a) = Returns (join newline (texts (get_content reply)))
        \<and> backend_calls (events_A (snd (process_query_A env_a query_a))) = 1
        \<and> dispatches (events_A (snd (process_query_A env_a query_a))) = []"
    if "invoke_model env_a 0 (first_request_A env_a query_a) = Inr reply"
      "tool_uses (get_content reply) = []"
    using that
    by (simp add: process_query_A_unfold for_content_texts initial_state_A_def)
  from round first_b first_a show ?thesis
    by blast
qed

theorem stops_without_tool_requests_witness:
  "requested \<lparr>message_content = Some ''4'', tool_calls = None\<rparr> = []
   \<and> (\<exists>out st'. while_loop (openai_env add_session [says ''4'']) []
         (says ''4'') (initial_state_B ''2 + 2'') = Some (out, st')
       \<and> events_B st' = events_B (initial_state_B ''2 + 2''))
   \<and> create (openai_env add_session [says ''4'']) 0
        (first_request_B (openai_env add_session [says ''4'']) ''2 + 2'') = Inr (says ''4'')
   \<and> (\<exists>st_b. process_query_B (openai_env add_session [says ''4'']) ''2 + 2''
          = Some (Returns ''4'', st_b)
        \<and> backend_calls (events_B st_b) = 1 \<and> dispatches (events_B st_b) = [])
   \<and> invoke_model (bedrock_env add_session [Some [Text ''It is'', Text ''4'']]) 0
        (first_request_A (bedrock_env add_session [Some [Text ''It is'', Text ''4'']]) ''2 + 2'')
      = Inr (Some [Text ''It is'', Text ''4''])
   \<and> tool_uses (get_content (Some [Text ''It is'', Text ''4''])) = []
   \<and> fst (process_query_A (bedrock_env add_session [Some [Text ''It is'', Text ''4'']]) ''2 + 2'')
      = Returns (''It is'' @ newline @ ''4'')
   \<and> backend_calls (events_A (snd (process_query_A
        (bedrock_env add_session [Some [Text ''It is'', Text ''4'']]) ''2 + 2''))) = 1
   \<and> dispatches (events_A (snd (process_query_A
        (bedrock_env add_session [Some [Text ''It is'', Text ''4'']]) ''2 + 2''))) = []"
proof -
  let ?m = "\<lparr>message_content = Some ''4'', tool_calls = None\<rparr>"
  let ?env_b = "openai_env add_session [says ''4'']"
  let ?env_a = "bedrock_env add_session [Some [Text ''It is'', Text ''4'']]"
  have h1: "requested ?m = []"
    by (simp add: requested_def)
  have h2: "create ?env_b 0 (first_request_B ?env_b ''2 + 2'') = Inr (?m # [])"
    by (simp add: openai_env_def scripted_def says_def)
  have h3: "message_content ?m = Some ''4''"
    by simp
  have h4: "invoke_model ?env_a 0 (first_request_A ?env_a ''2 + 2'') = Inr (Some [Text ''It is'', Text ''4''])"
    by (simp add: bedrock_env_def scripted_def)
  have h5: "tool_uses (get_content (Some [Text ''It is'', Text ''4''])) = []"
    by (simp add: get_content_def)
  from stops_without_tool_requests [of ?m ?env_b "[]" "[]" "initial_state_B ''2 + 2''" "''2 + 2''" "''4''"
      ?env_a "''2 + 2''" "Some [Text ''It is'', Text ''4'']"] h1 h2 h3 h4 h5
  show ?thesis
    by (simp add: says_def get_content_def)
qed

section \<open>A tool call that fails\<close>

text \<open>
  Claim C2, as stated, fails in both variants: nothing in \<open>process_query\<close> catches
  what \<open>call_tool\<close> raises.  With a session that raises
  \<open>ToolExecutionError("unknown tool")\<close> the query raises that error after the first
  backend call, and no tool-result message has been appended.
\<close>

theorem tool_error_counterexample:
  "map_option fst (process_query_B (openai_env failing_session [asks None [call1], says ''5'']) ''add'')
     = Some (Raises (ToolExecutionError ''unknown tool''))
   \<and> map_option (\<lambda>r. backend_calls (events_B (snd r)))
        (process_query_B (openai_env failing_session [asks None [call1], says ''5'']) ''add'') = Some 1
   \<and> map_option (\<lambda>r. messages_B (snd r))
        (process_query_B (openai_env failing_session [asks None [call1], says ''5'']) ''add'')
       = Some [User_B ''add'', Assistant_B \<lparr>message_content = None, tool_calls = Some [call1]\<rparr>]
   \<and> fst (process_query_A (bedrock_env failing_session [Some [use1], Some [Text ''5'']]) ''add'')
     = Raises (ToolExecutionError ''unknown tool'')
   \<and> backend_calls (events_A (snd (process_query_A
        (bedrock_env failing_session [Some [use1], Some [Text ''5'']]) ''add''))) = 1
   \<and> history_A (snd (process_query_A (bedrock_env failing_session [Some [use1], Some [Text ''5'']]) ''add''))
       = [User_message ''add'']"
proof -
  have b: "process_query_B (openai_env failing_session [asks None [call1], says ''5'']) ''add''
    = Some (Raises (ToolExecutionError ''unknown tool''),
        \<lparr>messages_B = [User_B ''add'', Assistant_B \<lparr>message_content = None, tool_calls = Some [call1]\<rparr>],
         final_text_B = [],
         events_B = [Backend_call (first_request_B (openai_env failing_session [asks None [call1], says ''5'']) ''add'')
                       (Inr (asks None [call1])),
                     Tool_call ''add'' add_args (Inl (ToolExecutionError ''unknown tool''))]\<rparr>)"
    by (simp add: run_B_simps)
  have a: "fst (process_query_A (bedrock_env failing_session [Some [use1], Some [Text ''5'']]) ''add'')
     = Raises (ToolExecutionError ''unknown tool'')
   \<and> backend_calls (events_A (snd (process_query_A
        (bedrock_env failing_session [Some [use1], Some [Text ''5'']]) ''add''))) = 1
   \<and> history_A (snd (process_query_A (bedrock_env failing_session [Some [use1], Some [Text ''5'']]) ''add''))
       = [User_message ''add'']"
    by code_simp
  from a b show ?thesis by simp
qed

text \<open>
  Claim C2, amended.  In both variants an error raised by a tool dispatch is not
  caught in \<open>process_query\<close>: if any dispatch of a query raised \<open>e\<close>, the query
  raises \<open>e\<close> and that dispatch is the last thing it did, so no backend call follows.
  From any state of either loop, a dispatch that raises leaves the state as it was
  but for the log entry of the call (nothing is appended to the history), and in
  Variant B the \<open>while\<close> loop ends at once with that error.
\<close>

theorem tool_error_aborts:
  "(Tool_call n a (Inl e) \<in> set (events_A (snd (process_query_A env_a query_a))) \<longrightarrow>
      fst (process_query_A env_a query_a) = Raises e
      \<and> last (events_A (snd (process_query_A env_a query_a))) = Tool_call n a (Inl e))
   \<and> (call_tool_A env_a (tool_calls_made (events_A st_a)) n2 a2 = Inl e2 \<longrightarrow>
        for_content env_a ts_a (Tool_use tid n2 a2 # cs) st_a
          = (Some e2, st_a\<lparr>events_A := events_A st_a @ [Tool_call n2 a2 (Inl e2)]\<rparr>))
   \<and> (Tool_call n3 a3 (Inl e3) \<in> set (log_B (process_query_B env_b query_b)) \<longrightarrow>
        (\<exists>st_b. process_query_B env_b query_b = Some (Raises e3, st_b)
           \<and> last (events_B st_b) = Tool_call n3 a3 (Inl e3)))
   \<and> (for_tool_calls env_b (requested msg) (st\<lparr>messages_B := messages_B st @ [Assistant_B msg]\<rparr>)
          = (Some e4, st2) \<longrightarrow>
        while_loop env_b ts_b (msg # rest) st = Some (Raises e4, st2))
   \<and> (py_eval env_b (function_arguments tc) = Inr a5 \<longrightarrow>
        call_tool_B env_b (tool_calls_made (events_B st5)) (function_name tc) a5 = Inl e5 \<longrightarrow>
        for_tool_calls env_b (tc # tcs) st5
          = (Some e5, st5\<lparr>events_B := events_B st5 @ [Tool_call (function_name tc) a5 (Inl e5)]\<rparr>))"
proof -
  have trace_a: "fst (process_query_A env_a query_a) = Raises e
      \<and> last (events_A (snd (process_query_A env_a query_a))) = Tool_call n a (Inl e)"
    if mem: "Tool_call n a (Inl e) \<in> set (events_A (snd (process_query_A env_a query_a)))"
  proof (cases "invoke_model env_a 0 (first_request_A env_a query_a)")
    case (Inl err)
    with mem show ?thesis by (simp add: process_query_A_unfold)
  next
    case (Inr reply)
    let ?st1 = "(initial_state_A query_a)\<lparr>events_A :=
      [Backend_call (first_request_A env_a query_a) (Inr reply)]\<rparr>"
    obtain r st2 where run:
      "for_content env_a (available_tools_A (list_tools_A env_a)) (get_content reply) ?st1 = (r, st2)"
      by (cases "for_content env_a (available_tools_A (list_tools_A env_a)) (get_content reply) ?st1")
    from for_content_tool_error [OF run] obtain new where new:
      "events_A st2 = [Backend_call (first_request_A env_a query_a) (Inr reply)] @ new"
      "\<forall>n a e. Tool_call n a (Inl e) \<in> set new \<longrightarrow> r = Some e \<and> last new = Tool_call n a (Inl e)"
      by auto
    from Inr run have st2: "snd (process_query_A env_a query_a) = st2"
      by (simp add: process_query_A_unfold split: option.splits)
    with mem new(1) have in_new: "Tool_call n a (Inl e) \<in> set new" by simp
    with new(2) have "r = Some e" "last new = Tool_call n a (Inl e)" by auto
    with Inr run new(1) in_new show ?thesis
      by (auto simp: process_query_A_unfold)
  qed
  have step_a: "for_content env_a ts_a (Tool_use tid n2 a2 # cs) st_a
          = (Some e2, st_a\<lparr>events_A := events_A st_a @ [Tool_call n2 a2 (Inl e2)]\<rparr>)"
    if "call_tool_A env_a (tool_calls_made (events_A st_a)) n2 a2 = Inl e2"
    using that by (simp add: dispatch_A_result)
  have trace_b: "\<exists>st_b. process_query_B env_b query_b = Some (Raises e3, st_b)
           \<and> last (events_B st_b) = Tool_call n3 a3 (Inl e3)"
    if mem: "Tool_call n3 a3 (Inl e3) \<in> set (log_B (process_query_B env_b query_b))"
  proof (cases "create env_b 0 (first_request_B env_b query_b)")
    case (Inl err)
    with mem show ?thesis by (simp add: process_query_B_unfold log_B_def)
  next
    case (Inr cr)
    let ?st1 = "(initial_state_B query_b)\<lparr>events_B :=
                [Backend_call (first_request_B env_b query_b) (Inr cr)]\<rparr>"
    from mem Inr obtain y where loop:
      "while_loop env_b (available_tools_B (list_tools_B env_b)) cr ?st1 = Some y"
      by (cases "while_loop env_b (available_tools_B (list_tools_B env_b)) cr ?st1")
         (auto simp: process_query_B_unfold log_B_def)
    from while_loop_tool_error [OF loop] obtain new where new:
      "events_B (snd y) = [Backend_call (first_request_B env_b query_b) (Inr cr)] @ new"
      "\<forall>n a e. Tool_call n a (Inl e) \<in> set new \<longrightarrow>
           fst y = Raises e \<and> last new = Tool_call n a (Inl e)"
      by auto
    from mem Inr loop new(1) have in_new: "Tool_call n3 a3 (Inl e3) \<in> set new"
      by (cases y) (simp add: process_query_B_unfold log_B_def)
    with new(2) have "fst y = Raises e3" "last new = Tool_call n3 a3 (Inl e3)" by auto
    with Inr loop new(1) in_new show ?thesis
      by (cases y) (auto simp: process_query_B_unfold)
  qed
  have round_b: "while_loop env_b ts_b (msg # rest) st = Some (Raises e4, st2)"
    if run: "for_tool_calls env_b (requested msg) (st\<lparr>messages_B := messages_B st @ [Assistant_B msg]\<rparr>)
          = (Some e4, st2)"
  proof -
    from run have "requested msg \<noteq> []" by auto
    with run show ?thesis by (simp add: while_loop_round)
  qed
  have step_b: "for_tool_calls env_b (tc # tcs) st5
          = (Some e5, st5\<lparr>events_B := events_B st5 @ [Tool_call (function_name tc) a5 (Inl e5)]\<rparr>)"
    if "py_eval env_b (function_arguments tc) = Inr a5"
      "call_tool_B env_b (tool_calls_made (events_B st5)) (function_name tc) a5 = Inl e5"
    using that by (simp add: dispatch_B_result)
  from trace_a step_a trace_b round_b step_b show ?thesis
    by blast
qed

theorem tool_error_aborts_witness:
  "Tool_call ''add'' add_args (Inl (ToolExecutionError ''unknown tool''))
     \<in> set (events_A (snd (process_query_A
           (bedrock_env failing_session [Some [use1], Some [Text ''5'']]) ''add'')))
   \<and> fst (process_query_A (bedrock_env failing_session [Some [use1], Some [Text ''5'']]) ''add'')
       = Raises (ToolExecutionError ''unknown tool'')
   \<and> last (events_A (snd (process_query_A
           (bedrock_env failing_session [Some [use1], Some [Text ''5'']]) ''add'')))
       = Tool_call ''add'' add_args (Inl (ToolExecutionError ''unknown tool''))
   \<and> for_content (bedrock_env failing_session [Some [use1], Some [Text ''5'']]) []
         (Tool_use ''tu_1'' ''add'' add_args # []) (initial_state_A ''add'')
       = (Some (ToolExecutionError ''unknown tool''),
          (initial_state_A ''add'')\<lparr>events_A := events_A (initial_state_A ''add'') @
             [Tool_call ''add'' add_args (Inl (ToolExecutionError ''unknown tool''))]\<rparr>)
   \<and> Tool_call ''add'' add_args (Inl (ToolExecutionError ''unknown tool''))
     \<in> set (log_B (process_query_B
           (openai_env failing_session [asks None [call1], says ''5'']) ''add''))
   \<and> (\<exists>st_b. process_query_B (openai_env failing_session [asks None [call1], says ''5'']) ''add''
          = Some (Raises (ToolExecutionError ''unknown tool''), st_b)
        \<and> last (events_B st_b)
          = Tool_call ''add'' add_args (Inl (ToolExecutionError ''unknown tool'')))
   \<and> while_loop (openai_env failing_session [asks None [call1], says ''5'']) []
        (asks None [call1]) (initial_state_B ''add'')
       = Some (Raises (ToolExecutionError ''unknown tool''),
           \<lparr>messages_B = [User_B ''add'',
              Assistant_B \<lparr>message_content = None, tool_calls = Some [call1]\<rparr>],
            final_text_B = [],
            events_B = [Tool_call ''add'' add_args (Inl (ToolExecutionError ''unknown tool''))]\<rparr>)
   \<and> for_tool_calls (openai_env failing_session [asks None [call1], says ''5'']) (call1 # [])
        (initial_state_B ''add'')
       = (Some (ToolExecutionError ''unknown tool''),
          (initial_state_B ''add'')\<lparr>events_B := events_B (initial_state_B ''add'') @
             [Tool_call (function_name call1) add_args (Inl (ToolExecutionError ''unknown tool''))]\<rparr>)"
proof -
  let ?err = "ToolExecutionError ''unknown tool''"
  let ?env_a = "bedrock_env failing_session [Some [use1], Some [Text ''5'']]"
  let ?env_b = "openai_env failing_session [asks None [call1], says ''5'']"
  let ?msg = "\<lparr>message_content = None, tool_calls = Some [call1]\<rparr>"
  let ?st2 = "\<lparr>messages_B = [User_B ''add'', Assistant_B ?msg], final_text_B = [],
            events_B = [Tool_call ''add'' add_args (Inl ?err)]\<rparr>"
  have h1: "Tool_call ''add'' add_args (Inl ?err)
     \<in> set (events_A (snd (process_query_A ?env_a ''add'')))"
    by code_simp
  have h2: "call_tool_A ?env_a (tool_calls_made (events_A (initial_state_A ''add''))) ''add'' add_args
     = Inl ?err"
    by (simp add: bedrock_env_def failing_session_def)
  have h3: "Tool_call ''add'' add_args (Inl ?err) \<in> set (log_B (process_query_B ?env_b ''add''))"
    by (simp add: log_B_def run_B_simps)
  have h4: "for_tool_calls ?env_b (requested ?msg)
       ((initial_state_B ''add'')\<lparr>messages_B := messages_B (initial_state_B ''add'') @ [Assistant_B ?msg]\<rparr>)
     = (Some ?err, ?st2)"
    by (simp add: run_B_simps)
  have h5: "py_eval ?env_b (function_arguments call1) = Inr add_args"
    by (simp add: run_B_simps)
  have h6: "call_tool_B ?env_b (tool_calls_made (events_B (initial_state_B ''add'')))
       (function_name call1) add_args = Inl ?err"
    by (simp add: openai_env_def failing_session_def)
  from tool_error_aborts [where n = "''add''" and a = add_args and e = ?err and env_a = ?env_a
      and query_a = "''add''" and st_a = "initial_state_A ''add''" and ?n2.0 = "''add''"
      and ?a2.0 = add_args and ?e2.0 = ?err and ts_a = "[]" and tid = "''tu_1''" and cs = "[]"
      and ?n3.0 = "''add''" and ?a3.0 = add_args and ?e3.0 = ?err and env_b = ?env_b
      and query_b = "''add''" and msg = ?msg and st = "initial_state_B ''add''" and ?e4.0 = ?err
      and ?st2.0 = ?st2 and ts_b = "[]" and rest = "[]" and tc = call1 and ?a5.0 = add_args
      and ?st5.0 = "initial_state_B ''add''" and ?e5.0 = ?err and tcs = "[]"]
    h1 h2 h3 h4 h5 h6
  show ?thesis
    by (simp add: asks_def)
qed

section \<open>Several tool calls in one reply (Variant B)\<close>



section \<open>The quit sentinel\<close>








section \<open>The scenario of one addition\<close>

text \<open>
  Claim C5, as stated, fails for Variant A: the backend first asks for
  \<open>add\<close> with \<open>{a: 2, b: 3}\<close> and then says \<open>5\<close>, the tool answers 5, and the
  query does not return \<open>"5"\<close>.
\<close>

theorem add_scenario_counterexample:
  "fst (process_query_A (bedrock_env add_session [Some [use1], Some [Text ''5'']]) ''add 2 and 3'')
     \<noteq> Returns ''5''"
  by code_simp

text \<open>
  Claim C5, amended.  In that scenario both variants make exactly 2 backend calls and
  exactly 1 tool call, \<open>add\<close> with \<open>{a: 2, b: 3}\<close>.  Variant B returns \<open>"5"\<close>;
  Variant A returns the two lines \<open>[Calling tool add with args {'a': 2, 'b': 3}]\<close>
  and \<open>5\<close>.
\<close>

theorem add_scenario:
  "fst (process_query_A (bedrock_env add_session [Some [use1], Some [Text ''5'']]) ''add 2 and 3'')
     = Returns (''[Calling tool add with args {'a': 2, 'b': 3}]'' @ newline @ ''5'')
   \<and> backend_calls (events_A (snd (process_query_A
        (bedrock_env add_session [Some [use1], Some [Text ''5'']]) ''add 2 and 3''))) = 2
   \<and> dispatches (events_A (snd (process_query_A
        (bedrock_env add_session [Some [use1], Some [Text ''5'']]) ''add 2 and 3'')))
       = [(''add'', add_args)]
   \<and> map_option fst (process_query_B (openai_env add_session [asks None [call1], says ''5''])
        ''add 2 and 3'') = Some (Returns ''5'')
   \<and> map_option (\<lambda>r. backend_calls (events_B (snd r)))
        (process_query_B (openai_env add_session [asks None [call1], says ''5'']) ''add 2 and 3'')
       = Some 2
   \<and> map_option (\<lambda>r. dispatches (events_B (snd r)))
        (process_query_B (openai_env add_session [asks None [call1], says ''5'']) ''add 2 and 3'')
       = Some [(''add'', add_args)]"
proof -
  have a: "fst (process_query_A (bedrock_env add_session [Some [use1], Some [Text ''5'']]) ''add 2 and 3'')
     = Returns (''[Calling tool add with args {'a': 2, 'b': 3}]'' @ newline @ ''5'')
   \<and> backend_calls (events_A (snd (process_query_A
        (bedrock_env add_session [Some [use1], Some [Text ''5'']]) ''add 2 and 3''))) = 2
   \<and> dispatches (events_A (snd (process_query_A
        (bedrock_env add_session [Some [use1], Some [Text ''5'']]) ''add 2 and 3'')))
       = [(''add'', add_args)]"
    by code_simp
  have b: "map_option fst (process_query_B (openai_env add_session [asks None [call1], says ''5''])
        ''add 2 and 3'') = Some (Returns ''5'')
   \<and> map_option (\<lambda>r. backend_calls (events_B (snd r)))
        (process_query_B (openai_env add_session [asks None [call1], says ''5'']) ''add 2 and 3'')
       = Some 2
   \<and> map_option (\<lambda>r. dispatches (events_B (snd r)))
        (process_query_B (openai_env add_session [asks None [call1], says ''5'']) ''add 2 and 3'')
       = Some [(''add'', add_args)]"
    by (simp add: run_B_simps)
  from a b show ?thesis by simp
qed

section \<open>The history sent to the backend\<close>

text \<open>
  Claim C1 says that every tool request of the assistant is followed by exactly one
  tool result with its id before the next backend call.  Variant A breaks this when
  the first reply holds two tool requests.  These are the histories of its three
  backend calls: at the second call the request \<open>tu_2\<close> of the first reply has no
  result, and at the third call the assistant message with both requests stands
  twice, each time followed by one result only.
\<close>

theorem bedrock_two_tool_uses_history:
  "map request_messages (requests (events_A (snd (process_query_A
      (bedrock_env add_session [Some [use1, use2], Some [Text ''5''], Some [Text ''5'']])
      ''add twice'')))) =
   [ [User_message ''add twice''],
    [User_message ''add twice'', Assistant_message [use1], Tool_result_message ''tu_1'' ''5''],
    [User_message ''add twice'', Assistant_message [use1, use2], Tool_result_message ''tu_1'' ''5'',
       Assistant_message [use1, use2], Tool_result_message ''tu_2'' ''5'']]"
  by code_simp

text \<open>
  Claim C7 says that a message, once appended to the history, is never changed.  In
  Variant A every assistant entry of the history is the list
  \<open>assistant_message_content\<close> itself, and the loop goes on appending to that list.
  Here the entry at index 1 of the history is read at the second and at the third
  backend call: it has changed in between.
\<close>

theorem bedrock_history_entry_rewritten:
  "map (\<lambda>req. request_messages req ! 1) (tl (requests (events_A (snd (process_query_A
      (bedrock_env add_session [Some [use1, Text ''and'', use2], Some [Text ''5''], Some [Text ''5'']])
      ''add twice''))))) =
   [Assistant_message [use1], Assistant_message [use1, Text ''and'', use2]]"
  by code_simp

text \<open>Variant B, for comparison, only ever appends to its history.\<close>

lemma for_tool_calls_appends:
  "for_tool_calls env tcs st = (r, st') \<Longrightarrow> prefix (messages_B st) (messages_B st')"
proof (induction tcs arbitrary: st)
  case Nil
  then show ?case by simp
next
  case (Cons tc tcs)
  from Cons.prems [unfolded for_tool_calls_Cons] show ?case
    by (auto split: sum.splits dest!: Cons.IH dest: append_prefixD)
qed

lemma while_loop_appends:
  assumes "while_loop env ts cr st = Some y"
  shows "prefix (messages_B st) (messages_B (snd y))"
proof (rule while_loop.raw_induct [where P = "\<lambda>env ts cr st y.
     prefix (messages_B st) (messages_B (snd y))", OF _ assms], goal_cases)
  case (1 loop env ts cr st y)
  note IH = 1(1) and body = 1(2)
  show ?case
  proof (cases cr)
    case Nil
    with body show ?thesis by auto
  next
    case (Cons m rest)
    show ?thesis
    proof (cases "requested m = []")
      case True
      with body Cons show ?thesis by (auto split: sum.splits)
    next
      case False
      obtain r st2 where ftc:
        "for_tool_calls env (requested m) (st\<lparr>messages_B := messages_B st @ [Assistant_B m]\<rparr>) = (r, st2)"
        by (cases "for_tool_calls env (requested m) (st\<lparr>messages_B := messages_B st @ [Assistant_B m]\<rparr>)")
      from for_tool_calls_appends [OF ftc] have grown: "prefix (messages_B st) (messages_B st2)"
        by (auto dest: append_prefixD)
      show ?thesis
      proof (cases r)
        case (Some e)
        with body Cons False ftc grown show ?thesis by auto
      next
        case None
        show ?thesis
        proof (cases "fst (create_B env ts st2)")
          case (Inl e)
          with body Cons False ftc None grown show ?thesis
            by (auto simp: create_B_result)
        next
          case (Inr cr')
          with body Cons False ftc None
          have "loop env ts cr' (snd (create_B env ts st2)) = Some y"
            by (auto simp: create_B_result)
          from IH [OF this] grown show ?thesis
            by (simp add: create_B_result)
        qed
      qed
    qed
  qed
qed

end
